theory Spec2Isabelle
  imports Main "HOL-Library.Word"
begin

section \<open>JavaScript strings, values and objects\<close>

text \<open>
  The service is one file, \<^verbatim>\<open>server.js\<close>. Its strings are JavaScript strings: sequences of
  UTF-16 code units. \<^verbatim>\<open>value.length\<close>, \<^verbatim>\<open>charAt\<close>, \<^verbatim>\<open>split\<close> and the regular expressions of
  the file (none has the \<^verbatim>\<open>u\<close> flag) all work on code units, so a string is a list of
  16-bit words. \<open>js\<close> writes an ASCII literal as such a list.
\<close>

type_synonym u16 = "16 word"

type_synonym jsstring = "u16 list"

definition js :: "string \<Rightarrow> jsstring" where
  "js s = map (\<lambda>c. of_nat (of_char c)) s"

text \<open>
  The values a raw filter can hold: query-string values are strings, the debug rules of
  the natural-language route produce numbers and booleans. \<open>JNumber n\<close> is the number
  \<open>n\<close>, for an integer a JavaScript number holds exactly (magnitude below \<open>2^53\<close>);
  other numbers are not modelled.
\<close>

datatype jsval = JString jsstring | JNumber int | JBoolean bool

text \<open>
  A plain object is its list of own properties, key and value, in insertion order.
  Reading a property is \<open>obj_get\<close> (\<^verbatim>\<open>undefined\<close> is \<open>None\<close>), an assignment
  \<^verbatim>\<open>o[k] = v\<close> is \<open>obj_set\<close>, \<^verbatim>\<open>delete o[k]\<close> is \<open>obj_delete\<close>, \<^verbatim>\<open>Object.keys\<close> and
  \<^verbatim>\<open>Object.values\<close> are the two projections. JavaScript lists keys that are array
  indices before the others; the file counts the keys of the frequency map and never
  reads their order, and a key of the store, a digest of 64 hexadecimal digits, is no
  array index. No key the file ever uses (one lower-case letter or digit, a digest, a
  filter name) is a property of \<^verbatim>\<open>Object.prototype\<close>, so the prototype chain is left
  out.
\<close>

type_synonym ('k, 'v) jsobject = "('k \<times> 'v) list"

definition obj_get :: "('k, 'v) jsobject \<Rightarrow> 'k \<Rightarrow> 'v option" where
  "obj_get obj k = map_of obj k"

fun obj_set :: "('k, 'v) jsobject \<Rightarrow> 'k \<Rightarrow> 'v \<Rightarrow> ('k, 'v) jsobject" where
  "obj_set [] k v = [(k, v)]"
| "obj_set ((k', v') # rest) k v =
     (if k' = k then (k, v) # rest else (k', v') # obj_set rest k v)"

definition obj_delete :: "('k, 'v) jsobject \<Rightarrow> 'k \<Rightarrow> ('k, 'v) jsobject" where
  "obj_delete obj k = filter (\<lambda>kv. fst kv \<noteq> k) obj"

definition obj_keys :: "('k, 'v) jsobject \<Rightarrow> 'k list" where
  "obj_keys obj = map fst obj"

definition obj_values :: "('k, 'v) jsobject \<Rightarrow> 'v list" where
  "obj_values obj = map snd obj"

subsection \<open>Character classes\<close>

text \<open>
  \<^verbatim>\<open>\s\<close> in a regular expression, \<^verbatim>\<open>trim\<close> and the leading blanks \<^verbatim>\<open>parseInt\<close> skips are
  the same set: ECMAScript's WhiteSpace and LineTerminator code points.
\<close>

definition isWhiteSpace :: "u16 \<Rightarrow> bool" where
  "isWhiteSpace c \<longleftrightarrow>
     c = 0x09 \<or> c = 0x0A \<or> c = 0x0B \<or> c = 0x0C \<or> c = 0x0D \<or> c = 0x20 \<or> c = 0xA0 \<or>
     c = 0x1680 \<or> (0x2000 \<le> c \<and> c \<le> 0x200A) \<or> c = 0x2028 \<or> c = 0x2029 \<or>
     c = 0x202F \<or> c = 0x205F \<or> c = 0x3000 \<or> c = 0xFEFF"

text \<open>The class \<^verbatim>\<open>[a-z0-9]\<close> of lines 52 and 125.\<close>

definition isLowerAlnum :: "u16 \<Rightarrow> bool" where
  "isLowerAlnum c \<longleftrightarrow> (0x61 \<le> c \<and> c \<le> 0x7A) \<or> (0x30 \<le> c \<and> c \<le> 0x39)"

definition asciiLower :: "u16 \<Rightarrow> u16" where
  "asciiLower c = (if 0x41 \<le> c \<and> c \<le> 0x5A then c + 0x20 else c)"

subsection \<open>The host: what the file uses and does not define\<close>

text \<open>
  \<^verbatim>\<open>analyzeString\<close> calls \<^verbatim>\<open>crypto.createHash('sha256').update(value).digest('hex')\<close>
  (line 51), but the file binds no \<^verbatim>\<open>crypto\<close>: lines 1 to 3 require \<^verbatim>\<open>express\<close>,
  \<^verbatim>\<open>node-fetch\<close> and \<^verbatim>\<open>path\<close>, nothing else. The identifier is therefore looked up in
  the host's global scope, and what it finds there decides line 51:
  \<^item> \<open>Unbound\<close>: no global of that name (a script under Node.js before version 19); the
    lookup throws a ReferenceError;
  \<^item> \<open>WebCrypto\<close>: the Web Crypto object (a script under Node.js 19 and later), which
    has no \<^verbatim>\<open>createHash\<close>; the call throws a TypeError;
  \<^item> \<open>NodeCrypto digest\<close>: Node's \<^verbatim>\<open>crypto\<close> module (the REPL, or a host that was
    given the binding), \<open>digest\<close> being the function from a string to the hexadecimal
    SHA-256 digest of its bytes.

  \<^verbatim>\<open>String.prototype.toLowerCase\<close> is fixed on ASCII: \<^verbatim>\<open>A\<close> to \<^verbatim>\<open>Z\<close> go to \<^verbatim>\<open>a\<close> to \<^verbatim>\<open>z\<close>,
  every other ASCII code unit stays. Outside ASCII it follows the host's Unicode tables
  (one code point can become several code units, and U+03A3 depends on its
  neighbours): \<open>lowerNonAscii\<close> gives, for the whole string and a position holding a
  non-ASCII code unit, the code units that position contributes.

  \<open>liveParsedFilters\<close> stands for lines 256 to 322, the request to the external
  language service and the parsing of its answer.
\<close>

datatype crypto_binding = Unbound | WebCrypto | NodeCrypto "jsstring \<Rightarrow> jsstring"

datatype js_error = ReferenceError | TypeError

datatype upstream_error = UpstreamUnparseable | UpstreamEmpty | UpstreamFailed

record host =
  crypto :: crypto_binding
  lowerNonAscii :: "jsstring \<Rightarrow> nat \<Rightarrow> jsstring"
  liveParsedFilters :: "jsstring \<Rightarrow> upstream_error + (string, jsval) jsobject"

fun lowerFrom :: "host \<Rightarrow> jsstring \<Rightarrow> nat \<Rightarrow> jsstring \<Rightarrow> jsstring" where
  "lowerFrom h s i [] = []"
| "lowerFrom h s i (c # cs) =
     (if c < 0x80 then [asciiLower c] else lowerNonAscii h s i) @ lowerFrom h s (Suc i) cs"

definition toLowerCase :: "host \<Rightarrow> jsstring \<Rightarrow> jsstring" where
  "toLowerCase h s = lowerFrom h s 0 s"

definition createHashSha256Hex :: "host \<Rightarrow> jsstring \<Rightarrow> js_error + jsstring" where
  "createHashSha256Hex h v =
     (case crypto h of
        Unbound \<Rightarrow> Inl ReferenceError
      | WebCrypto \<Rightarrow> Inl TypeError
      | NodeCrypto digest \<Rightarrow> Inr (digest v))"

subsection \<open>String built-ins\<close>

text \<open>\<^verbatim>\<open>s.replace(/[^a-z0-9]/g, '')\<close>: every code unit outside the class is removed.\<close>

definition replaceNonAlnum :: "jsstring \<Rightarrow> jsstring" where
  "replaceNonAlnum s = filter isLowerAlnum s"

text \<open>\<^verbatim>\<open>s.split('')\<close>, \<^verbatim>\<open>a.reverse()\<close> is \<open>rev\<close>, \<^verbatim>\<open>a.join('')\<close>.\<close>

definition splitChars :: "jsstring \<Rightarrow> jsstring list" where
  "splitChars s = map (\<lambda>c. [c]) s"

definition joinEmpty :: "jsstring list \<Rightarrow> jsstring" where
  "joinEmpty parts = concat parts"

text \<open>
  \<^verbatim>\<open>s.split(/\s+/)\<close>: the pieces between the maximal runs of white space, the empty
  piece before a leading run and after a trailing run included; the empty string gives
  one empty piece. \<open>tok\<close> is the piece being read.
\<close>

function splitLoop :: "jsstring \<Rightarrow> jsstring \<Rightarrow> jsstring list" where
  "splitLoop tok [] = [tok]"
| "splitLoop tok (c # cs) =
     (if isWhiteSpace c then tok # splitLoop [] (dropWhile isWhiteSpace cs)
      else splitLoop (tok @ [c]) cs)"
  by pat_completeness auto
termination
  by (relation "measure (\<lambda>(tok, s). length s)") (auto simp: le_imp_less_Suc length_dropWhile_le)

definition splitWhiteSpace :: "jsstring \<Rightarrow> jsstring list" where
  "splitWhiteSpace s = splitLoop [] s"

text \<open>\<^verbatim>\<open>s.trim()\<close> and \<^verbatim>\<open>s.charAt(0)\<close> (the empty string when there is no first unit).\<close>

definition trim :: "jsstring \<Rightarrow> jsstring" where
  "trim s = rev (dropWhile isWhiteSpace (rev (dropWhile isWhiteSpace s)))"

definition charAt0 :: "jsstring \<Rightarrow> jsstring" where
  "charAt0 s = take 1 s"

text \<open>\<^verbatim>\<open>s.includes(t)\<close>: \<open>t\<close> occurs in \<open>s\<close> as a contiguous run of code units.\<close>

fun includesStr :: "jsstring \<Rightarrow> jsstring \<Rightarrow> bool" where
  "includesStr [] t = (t = [])"
| "includesStr (c # cs) t = (take (length t) (c # cs) = t \<or> includesStr cs t)"

text \<open>
  \<^verbatim>\<open>String(v)\<close>. A number prints in decimal; that is what JavaScript prints for every
  integer of magnitude below \<open>2^53\<close>, the integers a number holds exactly.
\<close>

fun decimalDigits :: "nat \<Rightarrow> jsstring" where
  "decimalDigits n =
     (if n < 10 then [0x30 + of_nat n]
      else decimalDigits (n div 10) @ [0x30 + of_nat (n mod 10)])"

definition numberToString :: "int \<Rightarrow> jsstring" where
  "numberToString n = (if n < 0 then 0x2D # decimalDigits (nat (- n)) else decimalDigits (nat n))"

fun ToString :: "jsval \<Rightarrow> jsstring" where
  "ToString (JString s) = s"
| "ToString (JNumber n) = numberToString n"
| "ToString (JBoolean b) = (if b then js ''true'' else js ''false'')"

text \<open>
  \<^verbatim>\<open>parseInt(v)\<close> with no radix: the argument is converted to a string, leading white
  space is skipped, a sign is read, a \<^verbatim>\<open>0x\<close> or \<^verbatim>\<open>0X\<close> prefix selects radix 16, and the
  longest run of digits of the radix is the number; whatever follows is ignored. With
  no digit the result is \<^verbatim>\<open>NaN\<close>, here \<open>None\<close>. The result is the integer the digits
  denote; JavaScript rounds it to the nearest double, which changes nothing below
  \<open>2^53\<close> and never changes how it compares with a string length.
\<close>

definition digitValue :: "u16 \<Rightarrow> nat" where
  "digitValue c =
     (if 0x30 \<le> c \<and> c \<le> 0x39 then unat c - 0x30
      else if 0x61 \<le> c \<and> c \<le> 0x7A then unat c - 0x61 + 10
      else if 0x41 \<le> c \<and> c \<le> 0x5A then unat c - 0x41 + 10
      else 36)"

definition isRadixDigit :: "nat \<Rightarrow> u16 \<Rightarrow> bool" where
  "isRadixDigit R c \<longleftrightarrow> digitValue c < R"

definition mathInt :: "nat \<Rightarrow> jsstring \<Rightarrow> nat" where
  "mathInt R Z = foldl (\<lambda>acc c. acc * R + digitValue c) 0 Z"

definition parseIntString :: "jsstring \<Rightarrow> int option" where
  "parseIntString inputString =
     (let S = dropWhile isWhiteSpace inputString;
          sign = (if S \<noteq> [] \<and> hd S = 0x2D then - 1 else 1 :: int);
          S1 = (if S \<noteq> [] \<and> (hd S = 0x2B \<or> hd S = 0x2D) then tl S else S);
          hex = (2 \<le> length S1 \<and> S1 ! 0 = 0x30 \<and> (S1 ! 1 = 0x78 \<or> S1 ! 1 = 0x58));
          R = (if hex then 16 else 10);
          S2 = (if hex then drop 2 S1 else S1);
          Z = takeWhile (isRadixDigit R) S2
      in if Z = [] then None else Some (sign * int (mathInt R Z)))"

definition parseInt :: "jsval \<Rightarrow> int option" where
  "parseInt v = parseIntString (ToString v)"

section \<open>The analysis function (lines 49 to 71)\<close>

record string_properties =
  length_val :: nat
  is_palindrome :: bool
  unique_characters :: nat
  word_count :: nat
  sha256_hash :: jsstring
  character_frequency_map :: "(jsstring, nat) jsobject"

text \<open>
  The loop of lines 58 to 60. \<^verbatim>\<open>for (const char of s)\<close> walks code points; every unit of
  the normalised string is in \<^verbatim>\<open>[a-z0-9]\<close>, so each code point is one unit and \<open>char\<close>
  is the one-unit string. \<^verbatim>\<open>m[char] || 0\<close> is 0 for a missing key.
\<close>

definition countChar :: "(jsstring, nat) jsobject \<Rightarrow> u16 \<Rightarrow> (jsstring, nat) jsobject" where
  "countChar m c =
     obj_set m [c] ((case obj_get m [c] of None \<Rightarrow> 0 | Some n \<Rightarrow> n) + 1)"

definition analyzeString :: "host \<Rightarrow> jsstring \<Rightarrow> js_error + string_properties" where
  "analyzeString h v =
     (let len = length v in
      case createHashSha256Hex h v of
        Inl e \<Rightarrow> Inl e
      | Inr sha \<Rightarrow>
          (let normalizedValue = replaceNonAlnum (toLowerCase h v);
               reversedValue = joinEmpty (rev (splitChars normalizedValue));
               pal = (normalizedValue = reversedValue);
               wc = length (filter (\<lambda>word. length word > 0) (splitWhiteSpace v));
               cfm = foldl countChar [] normalizedValue;
               uniq = length (obj_keys cfm)
           in Inr \<lparr> length_val = len, is_palindrome = pal, unique_characters = uniq,
                    word_count = wc, sha256_hash = sha, character_frequency_map = cfm \<rparr>))"

section \<open>Validating and applying filters (lines 74 to 186)\<close>

record analysis =
  id_val :: jsstring
  value_val :: jsstring
  properties :: string_properties
  created_at :: jsstring

record parsed_filters =
  pf_is_palindrome :: "bool option"
  pf_min_length :: "int option"
  pf_max_length :: "int option"
  pf_word_count :: "int option"
  pf_contains_character :: "jsstring option"

definition no_filters :: parsed_filters where
  "no_filters = \<lparr> pf_is_palindrome = None, pf_min_length = None, pf_max_length = None,
                  pf_word_count = None, pf_contains_character = None \<rparr>"

text \<open>
  Lines 75 to 136 are five blocks, one per recognised key, each reading its own key of
  \<open>filters\<close> and writing its own field of \<open>parsedFilters\<close> or pushing one message onto
  \<open>errors\<close>. Each block is a function on the pair of the two.
\<close>

type_synonym parse_state = "parsed_filters \<times> string list"

definition check_is_palindrome :: "host \<Rightarrow> (string, jsval) jsobject \<Rightarrow> parse_state \<Rightarrow> parse_state" where
  "check_is_palindrome h filters st =
     (case obj_get filters ''is_palindrome'' of
        None \<Rightarrow> st
      | Some raw \<Rightarrow>
          (let v = toLowerCase h (ToString raw) in
           if v = js ''true'' \<or> raw = JBoolean True
           then ((fst st)\<lparr>pf_is_palindrome := Some True\<rparr>, snd st)
           else if v = js ''false'' \<or> raw = JBoolean False
           then ((fst st)\<lparr>pf_is_palindrome := Some False\<rparr>, snd st)
           else (fst st, snd st @ [''is_palindrome must be true or false''])))"

definition check_min_length :: "(string, jsval) jsobject \<Rightarrow> parse_state \<Rightarrow> parse_state" where
  "check_min_length filters st =
     (case obj_get filters ''min_length'' of
        None \<Rightarrow> st
      | Some raw \<Rightarrow>
          (case parseInt raw of
             None \<Rightarrow> (fst st, snd st @ [''min_length must be a non-negative integer''])
           | Some num \<Rightarrow>
               if num < 0
               then (fst st, snd st @ [''min_length must be a non-negative integer''])
               else ((fst st)\<lparr>pf_min_length := Some num\<rparr>, snd st)))"

definition check_max_length :: "(string, jsval) jsobject \<Rightarrow> parse_state \<Rightarrow> parse_state" where
  "check_max_length filters st =
     (case obj_get filters ''max_length'' of
        None \<Rightarrow> st
      | Some raw \<Rightarrow>
          (case parseInt raw of
             None \<Rightarrow> (fst st, snd st @ [''max_length must be a non-negative integer''])
           | Some num \<Rightarrow>
               if num < 0
               then (fst st, snd st @ [''max_length must be a non-negative integer''])
               else ((fst st)\<lparr>pf_max_length := Some num\<rparr>, snd st)))"

definition check_word_count :: "(string, jsval) jsobject \<Rightarrow> parse_state \<Rightarrow> parse_state" where
  "check_word_count filters st =
     (case obj_get filters ''word_count'' of
        None \<Rightarrow> st
      | Some raw \<Rightarrow>
          (case parseInt raw of
             None \<Rightarrow> (fst st, snd st @ [''word_count must be a positive integer''])
           | Some num \<Rightarrow>
               if num < 1
               then (fst st, snd st @ [''word_count must be a positive integer''])
               else ((fst st)\<lparr>pf_word_count := Some num\<rparr>, snd st)))"

text \<open>
  Lines 118 to 136. \<^verbatim>\<open>typeof char !== 'string'\<close> is never true, \<open>char\<close> being
  \<^verbatim>\<open>String(...)\<close>. \<^verbatim>\<open>firstChar.match(/[a-z0-9]/)\<close> is truthy when the one unit of
  \<open>firstChar\<close> is in the class, and null when \<open>firstChar\<close> is empty.
\<close>

definition check_contains_character :: "host \<Rightarrow> (string, jsval) jsobject \<Rightarrow> parse_state \<Rightarrow> parse_state" where
  "check_contains_character h filters st =
     (case obj_get filters ''contains_character'' of
        None \<Rightarrow> st
      | Some raw \<Rightarrow>
          (let char = ToString raw in
           if length char \<noteq> 1 then
             (if length char > 1 then
                (let firstChar = charAt0 (trim (toLowerCase h char)) in
                 if list_ex isLowerAlnum firstChar
                 then ((fst st)\<lparr>pf_contains_character := Some firstChar\<rparr>, snd st)
                 else (fst st, snd st @
                   [''contains_character could not be simplified to a single character'']))
              else (fst st, snd st @ [''contains_character must be a single character string'']))
           else ((fst st)\<lparr>pf_contains_character := Some (toLowerCase h char)\<rparr>, snd st)))"

definition parseFilters :: "host \<Rightarrow> (string, jsval) jsobject \<Rightarrow> parse_state" where
  "parseFilters h filters =
     check_contains_character h filters
       (check_word_count filters
         (check_max_length filters
           (check_min_length filters
             (check_is_palindrome h filters (no_filters, [])))))"

text \<open>Lines 146 to 183: five optional passes of \<^verbatim>\<open>Array.prototype.filter\<close>.\<close>

definition applyFilters :: "parsed_filters \<Rightarrow> analysis list \<Rightarrow> analysis list" where
  "applyFilters pf records =
     (let d0 = records;
          d1 = (case pf_is_palindrome pf of
                  None \<Rightarrow> d0
                | Some b \<Rightarrow> filter (\<lambda>item. is_palindrome (properties item) = b) d0);
          d2 = (case pf_min_length pf of
                  None \<Rightarrow> d1
                | Some n \<Rightarrow> filter (\<lambda>item. int (length_val (properties item)) \<ge> n) d1);
          d3 = (case pf_max_length pf of
                  None \<Rightarrow> d2
                | Some n \<Rightarrow> filter (\<lambda>item. int (length_val (properties item)) \<le> n) d2);
          d4 = (case pf_word_count pf of
                  None \<Rightarrow> d3
                | Some n \<Rightarrow> filter (\<lambda>item. int (word_count (properties item)) = n) d3);
          d5 = (case pf_contains_character pf of
                  None \<Rightarrow> d4
                | Some char \<Rightarrow>
                    filter (\<lambda>item.
                      obj_get (character_frequency_map (properties item)) char \<noteq> None) d4)
      in d5)"

datatype filter_result =
    FilterError nat string "string list"
  | FilterOk "analysis list" parsed_filters

definition filterData :: "host \<Rightarrow> analysis list \<Rightarrow> (string, jsval) jsobject \<Rightarrow> filter_result" where
  "filterData h records filters =
     (let (parsedFilters, errors) = parseFilters h filters in
      if length errors > 0
      then FilterError 400 ''Invalid filter values in interpreted query'' errors
      else FilterOk (applyFilters parsedFilters records) parsedFilters)"

section \<open>The store and the routes\<close>

text \<open>
  \<open>stringDatabase\<close> (line 17) is an object keyed by digest. A route takes the store and
  returns its response and the store it leaves. An exception thrown inside a handler
  reaches the framework, which answers 500; the store is as the handler left it.
\<close>

type_synonym store = "(jsstring, analysis) jsobject"

datatype response =
    BadRequest
  | UnprocessableEntity
  | Conflict jsstring
  | Created analysis
  | NotFound
  | NoContent
  | InternalServerError js_error

text \<open>
  \<^verbatim>\<open>POST /strings\<close>, lines 190 to 214. \<open>body_value\<close> is the \<open>value\<close> field of the request
  body, \<open>None\<close> when it is missing; \<open>now\<close> is \<^verbatim>\<open>new Date().toISOString()\<close>.
\<close>

definition post_strings :: "host \<Rightarrow> jsstring \<Rightarrow> store \<Rightarrow> jsval option \<Rightarrow> response \<times> store" where
  "post_strings h now stringDatabase body_value =
     (case body_value of
        None \<Rightarrow> (BadRequest, stringDatabase)
      | Some (JString v) \<Rightarrow>
          (case analyzeString h v of
             Inl e \<Rightarrow> (InternalServerError e, stringDatabase)
           | Inr props \<Rightarrow>
               (let ident = sha256_hash props in
                if obj_get stringDatabase ident \<noteq> None
                then (Conflict ident, stringDatabase)
                else
                  (let result = \<lparr> id_val = ident, value_val = v, properties = props,
                                   created_at = now \<rparr>
                   in (Created result, obj_set stringDatabase ident result))))
      | Some _ \<Rightarrow> (UnprocessableEntity, stringDatabase))"

text \<open>
  \<^verbatim>\<open>DELETE /strings/:stringValue\<close>, lines 358 to 378, from step 3 on: \<open>stringValue\<close> is
  the path parameter after \<^verbatim>\<open>decodeURIComponent\<close>.
\<close>

definition delete_strings :: "host \<Rightarrow> store \<Rightarrow> jsstring \<Rightarrow> response \<times> store" where
  "delete_strings h stringDatabase stringValue =
     (case analyzeString h stringValue of
        Inl e \<Rightarrow> (InternalServerError e, stringDatabase)
      | Inr props \<Rightarrow>
          (let idToDelete = sha256_hash props in
           if obj_get stringDatabase idToDelete = None
           then (NotFound, stringDatabase)
           else (NoContent, obj_delete stringDatabase idToDelete)))"

text \<open>\<^verbatim>\<open>GET /strings\<close>, lines 218 to 231.\<close>

definition get_strings :: "host \<Rightarrow> store \<Rightarrow> (string, jsval) jsobject \<Rightarrow> filter_result" where
  "get_strings h stringDatabase filters = filterData h (obj_values stringDatabase) filters"

subsection \<open>The natural-language route (lines 235 to 354)\<close>

definition LLM_DEBUG_MODE :: bool where
  "LLM_DEBUG_MODE = True"

text \<open>Lines 248 to 254: the rules of the debug mode, on \<open>userQuery\<close> as it arrived.\<close>

definition debugParsedFilters :: "jsstring \<Rightarrow> (string, jsval) jsobject" where
  "debugParsedFilters userQuery =
     (if includesStr userQuery (js ''single word'') \<and> includesStr userQuery (js ''palindromic'')
      then [(''word_count'', JNumber 1), (''is_palindrome'', JBoolean True)]
      else if includesStr userQuery (js ''two words'')
      then [(''word_count'', JNumber 2)]
      else [])"

definition interpretQuery :: "host \<Rightarrow> jsstring \<Rightarrow> upstream_error + (string, jsval) jsobject" where
  "interpretQuery h userQuery =
     (if LLM_DEBUG_MODE then Inr (debugParsedFilters userQuery)
      else liveParsedFilters h userQuery)"

datatype nl_response =
    NlBadRequest
  | NlUpstream upstream_error
  | NlConflictingFilters
  | NlInvalidFilter "string list"
  | NlOk "analysis list" parsed_filters

definition filter_by_natural_language :: "host \<Rightarrow> store \<Rightarrow> jsstring \<Rightarrow> nl_response" where
  "filter_by_natural_language h stringDatabase userQuery =
     (if userQuery = [] then NlBadRequest
      else
        (case interpretQuery h userQuery of
           Inl e \<Rightarrow> NlUpstream e
         | Inr parsedFilters \<Rightarrow>
             if length (obj_keys parsedFilters) = 0
                \<and> includesStr (toLowerCase h userQuery) (js ''and'')
                \<and> includesStr (toLowerCase h userQuery) (js ''word'')
             then NlConflictingFilters
             else
               (case filterData h (obj_values stringDatabase) parsedFilters of
                  FilterError status message details \<Rightarrow> NlInvalidFilter details
                | FilterOk rs pf \<Rightarrow> NlOk rs pf)))"

section \<open>Reference notions of the specification\<close>

text \<open>
  The specification's normalised string: the value lowercased, with every character
  that is not an ASCII letter or digit removed. In a lowercased string the ASCII letters
  are \<^verbatim>\<open>a\<close> to \<^verbatim>\<open>z\<close>.
\<close>

definition normalized :: "host \<Rightarrow> jsstring \<Rightarrow> jsstring" where
  "normalized h v = filter isLowerAlnum (toLowerCase h v)"








text \<open>
  The specification's rule for a raw \<open>contains_character\<close> string: one character is
  lowercased; of a longer string the first character is taken, lowercased, and accepted
  only if it is an ASCII letter or digit.
\<close>

definition specContainsCharacter :: "host \<Rightarrow> jsstring \<Rightarrow> jsstring option" where
  "specContainsCharacter h raw =
     (if length raw = 1 then Some (toLowerCase h raw)
      else if length raw > 1 then
        (let first = toLowerCase h (take 1 raw) in
         if length first = 1 \<and> list_all isLowerAlnum first then Some first else None)
      else None)"

text \<open>The predicate a typed filter set stands for: the conjunction of what is present.\<close>

definition satisfies :: "parsed_filters \<Rightarrow> analysis \<Rightarrow> bool" where
  "satisfies pf item \<longleftrightarrow>
     (case pf_is_palindrome pf of None \<Rightarrow> True
      | Some b \<Rightarrow> is_palindrome (properties item) = b)
     \<and> (case pf_min_length pf of None \<Rightarrow> True
        | Some n \<Rightarrow> n \<le> int (length_val (properties item)))
     \<and> (case pf_max_length pf of None \<Rightarrow> True
        | Some n \<Rightarrow> int (length_val (properties item)) \<le> n)
     \<and> (case pf_word_count pf of None \<Rightarrow> True
        | Some n \<Rightarrow> int (word_count (properties item)) = n)
     \<and> (case pf_contains_character pf of None \<Rightarrow> True
        | Some char \<Rightarrow> char \<in> set (obj_keys (character_frequency_map (properties item))))"

text \<open>
  The invariant of the store: every record sits under its own id, the id is the digest
  of the record's value, and no two records hold the same value.
\<close>

definition store_inv :: "host \<Rightarrow> store \<Rightarrow> bool" where
  "store_inv h db \<longleftrightarrow>
     distinct (obj_keys db)
     \<and> (\<forall>kr \<in> set db. fst kr = id_val (snd kr)
           \<and> createHashSha256Hex h (value_val (snd kr)) = Inr (id_val (snd kr)))
     \<and> distinct (map value_val (obj_values db))"

subsection \<open>Hosts for closed examples\<close>

text \<open>
  \<open>node_script\<close> is the file run as a script by Node.js 19 or later: the global
  \<open>crypto\<close> is the Web Crypto object. \<open>node_with_crypto\<close> is a host in which the
  identifier reaches a digest function; the examples only need some function, and take
  the one that returns its argument. Both leave non-ASCII code units as they are; the
  examples are ASCII.
\<close>

definition node_script :: host where
  "node_script = \<lparr> crypto = WebCrypto, lowerNonAscii = (\<lambda>s i. [s ! i]),
                   liveParsedFilters = (\<lambda>q. Inl UpstreamFailed) \<rparr>"

definition node_with_crypto :: host where
  "node_with_crypto = \<lparr> crypto = NodeCrypto (\<lambda>v. v), lowerNonAscii = (\<lambda>s i. [s ! i]),
                        liveParsedFilters = (\<lambda>q. Inl UpstreamFailed) \<rparr>"

section \<open>The analysis function and its reference definition\<close>


















lemma obj_keys_obj_set: "set (obj_keys (obj_set m k v)) = insert k (set (obj_keys m))"
proof (induction m)
  case Nil
  show ?case by (simp add: obj_keys_def)
next
  case (Cons a m)
  then have "set (map fst (obj_set m k v)) = insert k (set (map fst m))"
    by (simp add: obj_keys_def)
  then show ?case
    by (cases a) (auto simp: obj_keys_def simp del: set_map)
qed




lemma obj_keys_foldl_countChar:
  "set (obj_keys (foldl countChar m xs)) = set (obj_keys m) \<union> (\<lambda>c. [c]) ` set xs"
  by (induction xs arbitrary: m) (auto simp: countChar_def obj_keys_obj_set)








section \<open>Filters: validation and application\<close>

lemma obj_get_keys: "(\<exists>y. obj_get obj k = Some y) \<longleftrightarrow> k \<in> set (obj_keys obj)"
  using map_of_eq_None_iff [of obj k] by (auto simp: obj_get_def obj_keys_def)

lemma applyFilters_filter: "applyFilters pf records = filter (satisfies pf) records"
  unfolding applyFilters_def satisfies_def Let_def
  by (cases "pf_is_palindrome pf"; cases "pf_min_length pf"; cases "pf_max_length pf";
      cases "pf_word_count pf"; cases "pf_contains_character pf";
      simp add: obj_get_keys conj_ac)

lemma filterData_cases:
  "filterData h records filters =
     (if snd (parseFilters h filters) = []
      then FilterOk (applyFilters (fst (parseFilters h filters)) records) (fst (parseFilters h filters))
      else FilterError 400 ''Invalid filter values in interpreted query'' (snd (parseFilters h filters)))"
  by (simp add: filterData_def split: prod.splits)

















text \<open>
  Claim C5. Applying a typed filter set keeps exactly the records that satisfy every
  predicate present (\<open>satisfies\<close>: equality on \<open>is_palindrome\<close>, inclusive bounds on the
  length, equality on \<open>word_count\<close>, presence of the character among the keys of the
  frequency map), in the order of the input. The result is a value of its own: the
  function returns no store and changes none. Whether \<open>filterData\<close> answers with an
  error depends on the raw filters alone, so a filter that no record satisfies yields
  the empty sequence, not an error.
\<close>

theorem applyFilters_conjunction:
  "applyFilters pf records = filter (satisfies pf) records
   \<and> (item \<in> set (applyFilters pf records) \<longleftrightarrow> item \<in> set records \<and> satisfies pf item)
   \<and> filterData h records filters =
       (if snd (parseFilters h filters) = []
        then FilterOk (filter (satisfies (fst (parseFilters h filters))) records)
               (fst (parseFilters h filters))
        else FilterError 400 ''Invalid filter values in interpreted query''
               (snd (parseFilters h filters)))"
  using applyFilters_filter [of pf records]
    applyFilters_filter [of "fst (parseFilters h filters)" records]
    filterData_cases [of h records filters]
  by simp

section \<open>The contains_character filter\<close>

lemma lowerFrom_ascii_prefix:
  "\<forall>u \<in> set pre. u < 0x80 \<Longrightarrow>
   lowerFrom h s i (pre @ rest) = map asciiLower pre @ lowerFrom h s (i + length pre) rest"
  by (induction pre arbitrary: i) simp_all

lemma asciiLower_not_space:
  assumes "u < 0x80"
  shows "isWhiteSpace (asciiLower u) \<longleftrightarrow> isWhiteSpace u"
proof (cases "0x41 \<le> u \<and> u \<le> 0x5A")
  case False
  then show ?thesis by (auto simp: asciiLower_def)
next
  case True
  then have "unat u \<in> {65..90}"
    by (simp add: word_le_nat_alt)
  then have "unat (u + 0x20) = unat u + 32"
    by (simp add: unat_add_lem [THEN iffD1])
  with \<open>unat u \<in> {65..90}\<close> have r: "unat (asciiLower u) \<in> {97..122}" "unat u \<in> {65..90}"
    using True by (simp_all add: asciiLower_def)
  have "\<not> isWhiteSpace w" if "unat w \<in> {65..122}" for w :: u16
    using that by (auto simp: isWhiteSpace_def word_le_nat_alt)
  with r show ?thesis by simp
qed

lemma take1_trim: "take 1 (trim x) = take 1 (dropWhile isWhiteSpace x)"
proof (cases "dropWhile isWhiteSpace x")
  case Nil
  show ?thesis unfolding trim_def Nil by simp
next
  case (Cons c rest)
  then have c: "\<not> isWhiteSpace c"
    by (metis hd_dropWhile list.sel(1) list.distinct(1))
  have "dropWhile isWhiteSpace (rev rest @ [c]) =
      (if \<forall>u \<in> set (rev rest). isWhiteSpace u then [c] else dropWhile isWhiteSpace (rev rest) @ [c])"
    using c by (simp add: dropWhile_append)
  then have "\<exists>ys. dropWhile isWhiteSpace (rev (c # rest)) = ys @ [c]"
    by (cases "\<forall>u \<in> set (rev rest). isWhiteSpace u") auto
  then obtain ys where "dropWhile isWhiteSpace (rev (c # rest)) = ys @ [c]" ..
  then show ?thesis
    unfolding trim_def Cons by simp
qed

lemma parseFilters_contains_character:
  "parseFilters h [(''contains_character'', raw)] =
     check_contains_character h [(''contains_character'', raw)] (no_filters, [])"
  by (simp add: parseFilters_def check_is_palindrome_def check_min_length_def
      check_max_length_def check_word_count_def obj_get_def)

lemma contains_character_single:
  "length (ToString raw) = 1 \<Longrightarrow>
   parseFilters h [(''contains_character'', raw)] =
     (no_filters\<lparr>pf_contains_character := Some (toLowerCase h (ToString raw))\<rparr>, [])"
  by (simp add: parseFilters_contains_character check_contains_character_def obj_get_def)

lemma contains_character_long:
  assumes "length (ToString raw) > 1"
  shows "parseFilters h [(''contains_character'', raw)] =
     (case dropWhile isWhiteSpace (toLowerCase h (ToString raw)) of
        [] \<Rightarrow> (no_filters,
                [''contains_character could not be simplified to a single character''])
      | c # _ \<Rightarrow>
          if isLowerAlnum c then (no_filters\<lparr>pf_contains_character := Some [c]\<rparr>, [])
          else (no_filters,
                [''contains_character could not be simplified to a single character'']))"
proof -
  let ?t = "toLowerCase h (ToString raw)"
  have first: "charAt0 (trim ?t) = take 1 (dropWhile isWhiteSpace ?t)"
    by (simp only: charAt0_def take1_trim)
  have step: "parseFilters h [(''contains_character'', raw)] =
      (if list_ex isLowerAlnum (charAt0 (trim ?t))
       then (no_filters\<lparr>pf_contains_character := Some (charAt0 (trim ?t))\<rparr>, [])
       else (no_filters,
             [''contains_character could not be simplified to a single character'']))"
    using assms
    by (simp add: parseFilters_contains_character check_contains_character_def obj_get_def Let_def)
  define d where "d = dropWhile isWhiteSpace ?t"
  have "(if list_ex isLowerAlnum (take 1 d)
       then (no_filters\<lparr>pf_contains_character := Some (take 1 d)\<rparr>, [])
       else (no_filters,
             [''contains_character could not be simplified to a single character''])) =
     (case d of
        [] \<Rightarrow> (no_filters,
                [''contains_character could not be simplified to a single character''])
      | c # _ \<Rightarrow>
          if isLowerAlnum c then (no_filters\<lparr>pf_contains_character := Some [c]\<rparr>, [])
          else (no_filters,
                [''contains_character could not be simplified to a single character'']))"
    by (cases d) simp_all
  then show ?thesis
    unfolding step first d_def .
qed

lemma contains_character_empty:
  "ToString raw = [] \<Longrightarrow>
   parseFilters h [(''contains_character'', raw)] =
     (no_filters, [''contains_character must be a single character string''])"
  by (simp add: parseFilters_contains_character check_contains_character_def obj_get_def)

lemma dropWhile_lower_ascii:
  assumes "\<forall>u \<in> set pre. u < 0x80 \<and> isWhiteSpace u" and "c < 0x80" and "\<not> isWhiteSpace c"
  shows "dropWhile isWhiteSpace (toLowerCase h (pre @ c # rest)) =
     asciiLower c # lowerFrom h (pre @ c # rest) (Suc (length pre)) rest"
proof -
  have "toLowerCase h (pre @ c # rest) =
      map asciiLower pre @ asciiLower c # lowerFrom h (pre @ c # rest) (Suc (length pre)) rest"
    using assms by (simp add: toLowerCase_def lowerFrom_ascii_prefix)
  moreover have "\<forall>u \<in> set (map asciiLower pre). isWhiteSpace u"
    using assms(1) by (simp add: asciiLower_not_space)
  moreover have "\<not> isWhiteSpace (asciiLower c)"
    using assms(2,3) by (simp add: asciiLower_not_space)
  ultimately show ?thesis
    by (simp add: dropWhile_append)
qed


text \<open>
  Claim C2, as amended. For a raw \<open>contains_character\<close> value, read as a string: a
  string of one character is accepted lowercased; a longer string is lowercased and
  its leading white space skipped, and the first character that remains is accepted
  when it is in \<^verbatim>\<open>[a-z0-9]\<close>, otherwise (also when nothing remains) the field fails; the
  empty string fails. For a string that begins with ASCII white space followed by an
  ASCII character \<open>c\<close> this is: \<open>c\<close> lowercased, accepted when it is a letter or digit.
\<close>

theorem contains_character_coercion:
  "(length (ToString raw) = 1 \<longrightarrow>
      parseFilters h [(''contains_character'', raw)] =
        (no_filters\<lparr>pf_contains_character := Some (toLowerCase h (ToString raw))\<rparr>, []))
   \<and> (length (ToString raw) > 1 \<longrightarrow>
      parseFilters h [(''contains_character'', raw)] =
        (case dropWhile isWhiteSpace (toLowerCase h (ToString raw)) of
           [] \<Rightarrow> (no_filters,
                   [''contains_character could not be simplified to a single character''])
         | c # _ \<Rightarrow>
             if isLowerAlnum c then (no_filters\<lparr>pf_contains_character := Some [c]\<rparr>, [])
             else (no_filters,
                   [''contains_character could not be simplified to a single character''])))
   \<and> (length (ToString raw) > 1 \<and> ToString raw = pre @ c # rest
        \<and> (\<forall>u \<in> set pre. u < 0x80 \<and> isWhiteSpace u) \<and> c < 0x80 \<and> \<not> isWhiteSpace c \<longrightarrow>
      parseFilters h [(''contains_character'', raw)] =
        (if isLowerAlnum (asciiLower c)
         then (no_filters\<lparr>pf_contains_character := Some [asciiLower c]\<rparr>, [])
         else (no_filters,
               [''contains_character could not be simplified to a single character''])))
   \<and> (ToString raw = [] \<longrightarrow>
      parseFilters h [(''contains_character'', raw)] =
        (no_filters, [''contains_character must be a single character string'']))"
proof -
  have "parseFilters h [(''contains_character'', raw)] =
        (if isLowerAlnum (asciiLower c)
         then (no_filters\<lparr>pf_contains_character := Some [asciiLower c]\<rparr>, [])
         else (no_filters,
               [''contains_character could not be simplified to a single character'']))"
    if "length (ToString raw) > 1" "ToString raw = pre @ c # rest"
      "\<forall>u \<in> set pre. u < 0x80 \<and> isWhiteSpace u" "c < 0x80" "\<not> isWhiteSpace c"
    using contains_character_long [OF that(1), of h]
      dropWhile_lower_ascii [OF that(3,4,5), of h rest]
    by (simp add: that(2))
  then show ?thesis
    using contains_character_single [of raw h] contains_character_long [of raw h]
      contains_character_empty [of raw h]
    by blast
qed

theorem contains_character_coercion_witness:
  "parseFilters node_script [(''contains_character'', JString (js ''the letter x''))] =
     (no_filters\<lparr>pf_contains_character := Some (js ''t'')\<rparr>, [])
   \<and> parseFilters node_script [(''contains_character'', JString (js ''Z''))] =
     (no_filters\<lparr>pf_contains_character := Some (js ''z'')\<rparr>, [])
   \<and> parseFilters node_script [(''contains_character'', JString (js ''  Xy''))] =
     (no_filters\<lparr>pf_contains_character := Some (js ''x'')\<rparr>, [])
   \<and> parseFilters node_script [(''contains_character'', JString (js ''?a''))] =
     (no_filters, [''contains_character could not be simplified to a single character''])"
proof -
  have l: "toLowerCase node_script (js ''Z'') = js ''z''"
    by code_simp
  have a: "asciiLower 0x58 = 0x78" "isLowerAlnum 0x78" "asciiLower 0x3F = 0x3F"
    "\<not> isLowerAlnum 0x3F" "isLowerAlnum 0x74" "isWhiteSpace 0x20" "\<not> isWhiteSpace 0x58"
    "\<not> isWhiteSpace 0x3F" "\<not> isWhiteSpace 0x74" "asciiLower 0x74 = 0x74"
    by (simp_all add: asciiLower_def isLowerAlnum_def isWhiteSpace_def)
  have j: "js ''the letter x'' = [] @ 0x74 # js ''he letter x''" "js ''t'' = [0x74]"
    "js ''  Xy'' = [0x20, 0x20] @ 0x58 # [0x79]" "js ''x'' = [0x78]"
    "js ''?a'' = [] @ 0x3F # [0x61]"
    by (simp_all add: js_def)
  have n: "length (js ''the letter x'') > 1" "length (js ''Z'') = 1" "length (js ''  Xy'') > 1"
    "length (js ''?a'') > 1"
    by (simp_all add: js_def)
  have 1: "parseFilters node_script [(''contains_character'', JString (js ''the letter x''))] =
     (no_filters\<lparr>pf_contains_character := Some (js ''t'')\<rparr>, [])"
    using n(1) j(1)
      contains_character_coercion [where raw = "JString (js ''the letter x'')" and h = node_script
        and pre = "[]" and c = "0x74" and rest = "js ''he letter x''",
        THEN conjunct2, THEN conjunct2, THEN conjunct1]
    by (simp add: a j(2))
  have 2: "parseFilters node_script [(''contains_character'', JString (js ''Z''))] =
     (no_filters\<lparr>pf_contains_character := Some (js ''z'')\<rparr>, [])"
    using n(2) contains_character_coercion [where raw = "JString (js ''Z'')" and h = node_script,
        THEN conjunct1]
    by (simp add: l)
  have 3: "parseFilters node_script [(''contains_character'', JString (js ''  Xy''))] =
     (no_filters\<lparr>pf_contains_character := Some (js ''x'')\<rparr>, [])"
    using n(3) j(3)
      contains_character_coercion [where raw = "JString (js ''  Xy'')" and h = node_script
        and pre = "[0x20, 0x20]" and c = "0x58" and rest = "[0x79]",
        THEN conjunct2, THEN conjunct2, THEN conjunct1]
    by (simp add: a j(4))
  have 4: "parseFilters node_script [(''contains_character'', JString (js ''?a''))] =
     (no_filters, [''contains_character could not be simplified to a single character''])"
    using n(4) j(5)
      contains_character_coercion [where raw = "JString (js ''?a'')" and h = node_script
        and pre = "[]" and c = "0x3F" and rest = "[0x61]",
        THEN conjunct2, THEN conjunct2, THEN conjunct1]
    by (simp add: a)
  from 1 2 3 4 show ?thesis by simp
qed

theorem contains_character_first_char_counterexample:
  "parseFilters node_script [(''contains_character'', JString (js '' x''))] =
     (no_filters\<lparr>pf_contains_character := Some (js ''x'')\<rparr>, [])
   \<and> specContainsCharacter node_script (js '' x'') = None"
  by code_simp


lemma frequency_map_keys:
  assumes "analyzeString h v = Inr p" and "k \<in> set (obj_keys (character_frequency_map p))"
  shows "\<exists>c. k = [c] \<and> isLowerAlnum c"
proof -
  from assms(1) have "character_frequency_map p = foldl countChar [] (normalized h v)"
    by (auto simp: analyzeString_def Let_def normalized_def replaceNonAlnum_def
        split: sum.splits)
  with assms(2) have "k \<in> (\<lambda>c. [c]) ` set (normalized h v)"
    by (simp add: obj_keys_foldl_countChar) (simp add: obj_keys_def)
  then show ?thesis
    by (auto simp: normalized_def)
qed

lemma applyFilters_no_key:
  assumes "pf_contains_character pf = Some ch"
    and "\<forall>r \<in> set records. ch \<notin> set (obj_keys (character_frequency_map (properties r)))"
  shows "applyFilters pf records = []"
  using assms by (simp add: applyFilters_filter satisfies_def)

lemma filterData_single_character:
  assumes "length s = 1"
  shows "filterData h records [(''contains_character'', JString s)] =
     FilterOk (applyFilters (no_filters\<lparr>pf_contains_character := Some (toLowerCase h s)\<rparr>) records)
       (no_filters\<lparr>pf_contains_character := Some (toLowerCase h s)\<rparr>)"
  using contains_character_single [of "JString s" h] assms
  by (simp add: filterData_def)

lemma toLowerCase_ascii_unit: "c < 0x80 \<Longrightarrow> toLowerCase h [c] = [asciiLower c]"
  by (simp add: toLowerCase_def)

text \<open>
  Claim C10. A raw \<open>contains_character\<close> string of one character is accepted
  lowercased, with no test that it is a letter or digit. Every key of the frequency map
  \<open>analyzeString\<close> builds is one character of \<^verbatim>\<open>[a-z0-9]\<close>. So where the records hold
  properties that \<open>analyzeString\<close> produced and the lowercased character is not a
  single character of \<^verbatim>\<open>[a-z0-9]\<close>, the filter compiles and the result is empty; this
  is the case of every ASCII character that is not a letter or digit.
\<close>

theorem single_character_filter_matches_nothing:
  "(length s = 1 \<longrightarrow>
      parseFilters h [(''contains_character'', JString s)] =
        (no_filters\<lparr>pf_contains_character := Some (toLowerCase h s)\<rparr>, []))
   \<and> (analyzeString h v = Inr p \<longrightarrow>
        (\<forall>k \<in> set (obj_keys (character_frequency_map p)). \<exists>c. k = [c] \<and> isLowerAlnum c))
   \<and> (length s = 1 \<and> \<not> (\<exists>c. toLowerCase h s = [c] \<and> isLowerAlnum c)
        \<and> (\<forall>r \<in> set records. \<exists>v. analyzeString h v = Inr (properties r)) \<longrightarrow>
      filterData h records [(''contains_character'', JString s)] =
        FilterOk [] (no_filters\<lparr>pf_contains_character := Some (toLowerCase h s)\<rparr>))
   \<and> (c < 0x80 \<and> \<not> isLowerAlnum (asciiLower c)
        \<and> (\<forall>r \<in> set records. \<exists>v. analyzeString h v = Inr (properties r)) \<longrightarrow>
      filterData h records [(''contains_character'', JString [c])] =
        FilterOk [] (no_filters\<lparr>pf_contains_character := Some [asciiLower c]\<rparr>))"
proof -
  have general: "filterData h records [(''contains_character'', JString s)] =
        FilterOk [] (no_filters\<lparr>pf_contains_character := Some (toLowerCase h s)\<rparr>)"
    if "length s = 1" "\<not> (\<exists>c. toLowerCase h s = [c] \<and> isLowerAlnum c)"
      "\<forall>r \<in> set records. \<exists>v. analyzeString h v = Inr (properties r)"
    for s
  proof -
    have "toLowerCase h s \<notin> set (obj_keys (character_frequency_map (properties r)))"
      if "r \<in> set records" for r
      using that \<open>\<forall>r \<in> set records. \<exists>v. analyzeString h v = Inr (properties r)\<close>
        \<open>\<not> (\<exists>c. toLowerCase h s = [c] \<and> isLowerAlnum c)\<close> frequency_map_keys
      by blast
    then have "applyFilters (no_filters\<lparr>pf_contains_character := Some (toLowerCase h s)\<rparr>)
        records = []"
      by (intro applyFilters_no_key [of _ "toLowerCase h s"]) simp_all
    with filterData_single_character [OF that(1), of h records] show ?thesis by simp
  qed
  have ascii: "filterData h records [(''contains_character'', JString [c])] =
        FilterOk [] (no_filters\<lparr>pf_contains_character := Some [asciiLower c]\<rparr>)"
    if "c < 0x80" "\<not> isLowerAlnum (asciiLower c)"
      "\<forall>r \<in> set records. \<exists>v. analyzeString h v = Inr (properties r)"
    using general [of "[c]"] that by (simp add: toLowerCase_ascii_unit)
  show ?thesis
    using contains_character_single [of "JString s" h] frequency_map_keys [of h v p]
      general [of s] ascii
    by auto
qed

theorem single_character_filter_matches_nothing_witness:
  "parseFilters node_with_crypto [(''contains_character'', JString (js ''!''))] =
     (no_filters\<lparr>pf_contains_character := Some (js ''!'')\<rparr>, [])
   \<and> (\<exists>p. analyzeString node_with_crypto (js ''Hi!'') = Inr p
        \<and> obj_keys (character_frequency_map p) = [js ''h'', js ''i'']
        \<and> filterData node_with_crypto
             [\<lparr> id_val = js ''Hi!'', value_val = js ''Hi!'', properties = p,
                created_at = js ''t1'' \<rparr>]
             [(''contains_character'', JString (js ''!''))] =
           FilterOk [] (no_filters\<lparr>pf_contains_character := Some (js ''!'')\<rparr>))"
proof -
  obtain p where p: "analyzeString node_with_crypto (js ''Hi!'') = Inr p"
    by (auto simp: analyzeString_def createHashSha256Hex_def node_with_crypto_def Let_def)
  have "projr (analyzeString node_with_crypto (js ''Hi!'')) = p"
    by (simp add: p)
  moreover have "obj_keys (character_frequency_map
      (projr (analyzeString node_with_crypto (js ''Hi!'')))) = [js ''h'', js ''i'']"
    by code_simp
  ultimately have k: "obj_keys (character_frequency_map p) = [js ''h'', js ''i'']"
    by simp
  have a: "(0x21 :: u16) < 0x80" "\<not> isLowerAlnum (asciiLower 0x21)" "asciiLower 0x21 = 0x21"
    "js ''!'' = [0x21]" "length (js ''!'') = 1" "toLowerCase node_with_crypto [0x21] = [0x21]"
    by (simp_all add: asciiLower_def isLowerAlnum_def js_def toLowerCase_def)
  let ?r = "\<lparr> id_val = js ''Hi!'', value_val = js ''Hi!'', properties = p,
    created_at = js ''t1'' \<rparr>"
  have r: "\<forall>r \<in> set [?r]. \<exists>v. analyzeString node_with_crypto v = Inr (properties r)"
    using p by auto
  note t = single_character_filter_matches_nothing [where h = node_with_crypto
      and s = "js ''!''" and c = "0x21" and records = "[?r]"]
  from t a have 1: "parseFilters node_with_crypto [(''contains_character'', JString (js ''!''))] =
     (no_filters\<lparr>pf_contains_character := Some (js ''!'')\<rparr>, [])"
    by simp
  from t a r have 2: "filterData node_with_crypto [?r]
      [(''contains_character'', JString (js ''!''))] =
      FilterOk [] (no_filters\<lparr>pf_contains_character := Some (js ''!'')\<rparr>)"
    by simp
  from 1 2 p k show ?thesis by blast
qed

section \<open>The integer filters\<close>












declare decimalDigits.simps [simp del]














section \<open>The store and its invariant\<close>

lemma analyzeString_hash:
  "analyzeString h v = Inr p \<Longrightarrow> createHashSha256Hex h v = Inr (sha256_hash p)"
  by (auto simp: analyzeString_def Let_def split: sum.splits)

lemma obj_set_new: "obj_get m k = None \<Longrightarrow> obj_set m k v = m @ [(k, v)]"
  by (induction m) (auto simp: obj_get_def split: if_splits)

lemma obj_get_None_keys: "obj_get m k = None \<longleftrightarrow> k \<notin> set (obj_keys m)"
  by (simp add: obj_get_def obj_keys_def map_of_eq_None_iff)


lemma store_inv_empty: "store_inv h []"
  by (simp add: store_inv_def obj_keys_def obj_values_def)

lemma store_inv_insert:
  assumes inv: "store_inv h db"
    and hash: "createHashSha256Hex h v = Inr ident"
    and new: "obj_get db ident = None"
  shows "store_inv h (obj_set db ident \<lparr> id_val = ident, value_val = v, properties = props,
           created_at = now \<rparr>)"
proof -
  let ?r = "\<lparr> id_val = ident, value_val = v, properties = props, created_at = now \<rparr>"
  have fresh: "ident \<notin> set (obj_keys db)"
    using new by (simp add: obj_get_None_keys)
  have "v \<notin> (\<lambda>x. value_val (snd x)) ` set db"
  proof
    assume "v \<in> (\<lambda>x. value_val (snd x)) ` set db"
    then obtain kr where kr: "kr \<in> set db" "value_val (snd kr) = v" by auto
    with inv have "fst kr = id_val (snd kr)"
      "createHashSha256Hex h v = Inr (id_val (snd kr))"
      by (auto simp: store_inv_def)
    with hash have "fst kr = ident" by simp
    with kr(1) have "ident \<in> set (obj_keys db)"
      by (auto simp: obj_keys_def)
    with fresh show False by simp
  qed
  with inv fresh hash show ?thesis
    by (simp add: obj_set_new [OF new] store_inv_def obj_keys_def obj_values_def)
qed

lemma store_inv_delete: "store_inv h db \<Longrightarrow> store_inv h (obj_delete db k)"
  by (auto simp: store_inv_def obj_delete_def obj_keys_def obj_values_def
      distinct_map_filter)

lemma store_inv_post: "store_inv h db \<Longrightarrow> store_inv h (snd (post_strings h now db body))"
  by (auto simp: post_strings_def Let_def store_inv_insert analyzeString_hash
      split: option.splits jsval.splits sum.splits)

lemma store_inv_del: "store_inv h db \<Longrightarrow> store_inv h (snd (delete_strings h db v))"
  by (auto simp: delete_strings_def Let_def store_inv_delete split: sum.splits)


lemma store_inv_lookup:
  assumes "store_inv h db" and "r \<in> set (obj_values db)"
  shows "createHashSha256Hex h (value_val r) = Inr (id_val r)" and "obj_get db (id_val r) = Some r"
proof -
  from assms(2) obtain kr where kr: "kr \<in> set db" "snd kr = r"
    by (auto simp: obj_values_def)
  with assms(1) have k: "fst kr = id_val r"
    and "createHashSha256Hex h (value_val r) = Inr (id_val r)"
    by (auto simp: store_inv_def)
  then show "createHashSha256Hex h (value_val r) = Inr (id_val r)" by simp
  from kr k have "(id_val r, r) \<in> set db" by (metis prod.collapse)
  moreover from assms(1) have "distinct (map fst db)"
    by (simp add: store_inv_def obj_keys_def)
  ultimately show "obj_get db (id_val r) = Some r"
    by (simp add: obj_get_def)
qed

lemma store_inv_values:
  assumes "store_inv h db" and "r \<in> set (obj_values db)" and "r' \<in> set (obj_values db)"
    and "value_val r = value_val r'"
  shows "r = r'"
proof -
  from assms(1) have "inj_on value_val (set (obj_values db))"
    by (simp add: store_inv_def distinct_map)
  with assms(2-4) show ?thesis by (simp add: inj_on_def)
qed

text \<open>
  Claim C6. The store invariant: the empty store satisfies it, \<open>POST /strings\<close> and
  \<open>DELETE /strings/:stringValue\<close> preserve it whatever they answer, and in a store that
  satisfies it every record is found under its own id, that id is the digest of the
  record's value, and two records with the same value are the same record.
\<close>

theorem store_invariant:
  "store_inv h []
   \<and> (store_inv h db \<longrightarrow> store_inv h (snd (post_strings h now db body)))
   \<and> (store_inv h db \<longrightarrow> store_inv h (snd (delete_strings h db v)))
   \<and> (store_inv h db \<longrightarrow>
        (\<forall>r \<in> set (obj_values db).
           createHashSha256Hex h (value_val r) = Inr (id_val r)
           \<and> obj_get db (id_val r) = Some r
           \<and> (\<forall>r' \<in> set (obj_values db). value_val r = value_val r' \<longrightarrow> r = r')))"
  using store_inv_empty [of h] store_inv_post [of h db now body] store_inv_del [of h db v]
    store_inv_lookup [of h db] store_inv_values [of h db]
  by blast

theorem store_invariant_witness:
  "store_inv node_with_crypto
     (snd (post_strings node_with_crypto (js ''t2'')
        (snd (post_strings node_with_crypto (js ''t1'') [] (Some (JString (js ''racecar'')))))
        (Some (JString (js ''hello'')))))
   \<and> map fst (snd (post_strings node_with_crypto (js ''t2'')
        (snd (post_strings node_with_crypto (js ''t1'') [] (Some (JString (js ''racecar'')))))
        (Some (JString (js ''hello''))))) = [js ''racecar'', js ''hello'']"
proof -
  define db1 where
    "db1 = snd (post_strings node_with_crypto (js ''t1'') [] (Some (JString (js ''racecar''))))"
  have 1: "store_inv node_with_crypto db1"
    unfolding db1_def
    using store_invariant [of node_with_crypto "[]" "js ''t1''" "Some (JString (js ''racecar''))"]
    by blast
  have 2: "store_inv node_with_crypto
      (snd (post_strings node_with_crypto (js ''t2'') db1 (Some (JString (js ''hello'')))))"
    using 1 store_invariant [of node_with_crypto db1 "js ''t2''" "Some (JString (js ''hello''))"]
    by blast
  have 3: "map fst (snd (post_strings node_with_crypto (js ''t2'')
        (snd (post_strings node_with_crypto (js ''t1'') [] (Some (JString (js ''racecar'')))))
        (Some (JString (js ''hello''))))) = [js ''racecar'', js ''hello'']"
    by code_simp
  from 2 3 show ?thesis
    unfolding db1_def by simp
qed



section \<open>The digest binding\<close>

text \<open>
  Claim C9. Run as a script, the file has no \<open>crypto\<close> with a \<open>createHash\<close>: the host
  \<open>node_script\<close> holds the Web Crypto global, and \<open>analyzeString\<close> raises a TypeError on
  every input; with no global at all it raises a ReferenceError. \<open>POST /strings\<close> then
  answers 500 and stores nothing, and \<open>DELETE /strings/:stringValue\<close> answers 500.
\<close>

theorem analyzeString_raises:
  "analyzeString node_script v = Inl TypeError
   \<and> analyzeString (node_script\<lparr>crypto := Unbound\<rparr>) v = Inl ReferenceError
   \<and> post_strings node_script now [] (Some (JString (js ''racecar''))) =
       (InternalServerError TypeError, [])
   \<and> delete_strings node_script db v = (InternalServerError TypeError, db)"
  by (simp add: analyzeString_def createHashSha256Hex_def node_script_def post_strings_def
      delete_strings_def)

section \<open>The debug rules of the natural-language route\<close>

text \<open>
  Claim C8. The debug rules look for their phrases in the query as it arrived, not in
  its lowercasing: the query \<open>Single Word Palindromic\<close> contains both phrases once
  lowercased and still maps to the empty filter map, and so does \<open>Two Words\<close>. The
  conflict check of line 327 lowercases the same query. A query that holds the phrases
  in lower case maps as the rules say, and the external service is never consulted:
  the result does not depend on it.
\<close>

theorem debug_rules_case_sensitive:
  "includesStr (toLowerCase node_script (js ''Single Word Palindromic'')) (js ''single word'')
   \<and> includesStr (toLowerCase node_script (js ''Single Word Palindromic'')) (js ''palindromic'')
   \<and> interpretQuery node_script (js ''Single Word Palindromic'') = Inr []
   \<and> includesStr (toLowerCase node_script (js ''Two Words'')) (js ''two words'')
   \<and> interpretQuery node_script (js ''Two Words'') = Inr []
   \<and> interpretQuery node_script (js ''all single word palindromic strings'') =
       Inr [(''word_count'', JNumber 1), (''is_palindrome'', JBoolean True)]
   \<and> interpretQuery (h\<lparr>liveParsedFilters := service\<rparr>) q = interpretQuery h q"
proof -
  have "includesStr (toLowerCase node_script (js ''Single Word Palindromic'')) (js ''single word'')
   \<and> includesStr (toLowerCase node_script (js ''Single Word Palindromic'')) (js ''palindromic'')
   \<and> interpretQuery node_script (js ''Single Word Palindromic'') = Inr []
   \<and> includesStr (toLowerCase node_script (js ''Two Words'')) (js ''two words'')
   \<and> interpretQuery node_script (js ''Two Words'') = Inr []
   \<and> interpretQuery node_script (js ''all single word palindromic strings'') =
       Inr [(''word_count'', JNumber 1), (''is_palindrome'', JBoolean True)]"
    by code_simp
  moreover have "interpretQuery (h\<lparr>liveParsedFilters := service\<rparr>) q = interpretQuery h q"
    by (simp add: interpretQuery_def LLM_DEBUG_MODE_def)
  ultimately show ?thesis by simp
qed

end
